theory Spec2Isabelle
  imports Main "HOL-Library.Sublist"
begin

section \<open>The chatbot HTTP gateway (ai-backend/api/flask_api.py)\<close>

text \<open>
  The module is a Flask application that owns one long-lived chatbot object and exposes it
  over six routes. The chatbot classes (\<open>UNYCompassDatabase\<close>, \<open>UNYCompassBot\<close>) live in
  another module, so the bot is a parameter of the model: a transition function on an
  abstract bot state. Everything the module itself does is translated function by function.
\<close>

subsection \<open>Values\<close>

text \<open>
  What \<open>request.get_json()\<close> returns: \<open>None\<close>, a bool, an int, a str, a list or a dict.
  A \<open>JDict\<close> holds the items of the dict. A \<open>char\<close> stands for one code point below 256;
  floats and code points above 255 are outside the model.
\<close>

datatype json =
    JNull
  | JBool bool
  | JInt int
  | JStr string
  | JList "json list"
  | JDict "(string \<times> json) list"

text \<open>An exception object, kept as the text that \<open>str(e)\<close> gives. It stands for an instance
  of \<open>Exception\<close>, the class the handlers' \<open>except Exception\<close> clauses name.\<close>

datatype py_exception = PyException string

fun str_exc :: "py_exception \<Rightarrow> string" where
  "str_exc (PyException m) = m"

text \<open>Python truthiness, as used by \<open>not data\<close> and \<open>not question\<close>.\<close>

fun truthy :: "json \<Rightarrow> bool" where
  "truthy JNull = False"
| "truthy (JBool b) = b"
| "truthy (JInt n) = (n \<noteq> 0)"
| "truthy (JStr s) = (s \<noteq> [])"
| "truthy (JList xs) = (xs \<noteq> [])"
| "truthy (JDict kvs) = (kvs \<noteq> [])"

text \<open>\<open>'message' in data\<close>: key membership in a dict, element membership in a list,
  substring test on a str, and a TypeError on anything else.\<close>

fun py_in :: "string \<Rightarrow> json \<Rightarrow> py_exception + bool" where
  "py_in k (JDict kvs) = Inr (k \<in> set (map fst kvs))"
| "py_in k (JList xs) = Inr (JStr k \<in> set xs)"
| "py_in k (JStr s) = Inr (sublist k s)"
| "py_in k JNull = Inl (PyException ''TypeError: argument of type NoneType is not iterable'')"
| "py_in k (JBool b) = Inl (PyException ''TypeError: argument of type bool is not iterable'')"
| "py_in k (JInt n) = Inl (PyException ''TypeError: argument of type int is not iterable'')"

text \<open>\<open>data['message']\<close>: only a dict can be indexed by a str.\<close>

fun py_getitem :: "json \<Rightarrow> string \<Rightarrow> py_exception + json" where
  "py_getitem (JDict kvs) k =
     (case map_of kvs k of
        Some v \<Rightarrow> Inr v
      | None \<Rightarrow> Inl (PyException k))"
| "py_getitem (JList xs) k = Inl (PyException ''TypeError: list indices must be integers or slices, not str'')"
| "py_getitem (JStr s) k = Inl (PyException ''TypeError: string indices must be integers'')"
| "py_getitem JNull k = Inl (PyException ''TypeError: object is not subscriptable'')"
| "py_getitem (JBool b) k = Inl (PyException ''TypeError: object is not subscriptable'')"
| "py_getitem (JInt n) k = Inl (PyException ''TypeError: object is not subscriptable'')"

text \<open>\<open>data.get('session_id')\<close>: the value, or \<open>None\<close> when the key is absent.\<close>

fun py_get :: "json \<Rightarrow> string \<Rightarrow> py_exception + json" where
  "py_get (JDict kvs) k = Inr (case map_of kvs k of Some v \<Rightarrow> v | None \<Rightarrow> JNull)"
| "py_get other k = Inl (PyException ''AttributeError: object has no attribute get'')"

subsection \<open>Strings\<close>

text \<open>\<open>str.isspace\<close> on the code points below 256: tab to carriage return, the four
  separators 28 to 31, the space, NEL (133) and the no-break space (160).\<close>

definition is_space :: "char \<Rightarrow> bool" where
  "is_space c =
     (let n = (of_char c :: nat)
      in (9 \<le> n \<and> n \<le> 13) \<or> (28 \<le> n \<and> n \<le> 32) \<or> n = 133 \<or> n = 160)"

definition strip :: "string \<Rightarrow> string" where
  "strip s = rev (dropWhile is_space (rev (dropWhile is_space s)))"

definition digit_char :: "nat \<Rightarrow> char" where
  "digit_char d = char_of (48 + d)"

text \<open>\<open>str(n)\<close> for a non-negative int: decimal, no leading zero.\<close>

fun str_nat :: "nat \<Rightarrow> string" where
  "str_nat n = (if n < 10 then [digit_char n] else str_nat (n div 10) @ [digit_char (n mod 10)])"

declare str_nat.simps [simp del]

text \<open>The number a run of decimal digits denotes; it is here to say what \<open>str_nat\<close>
  produces.\<close>

definition digits_value :: "string \<Rightarrow> nat" where
  "digits_value s = foldl (\<lambda>acc c. 10 * acc + (of_char c - 48)) 0 s"

text \<open>An f-string field holding \<open>CHATBOT_ERROR\<close>, which is a str or \<open>None\<close>.\<close>

fun str_opt :: "string option \<Rightarrow> string" where
  "str_opt None = ''None''"
| "str_opt (Some s) = s"

subsection \<open>The origin pattern\<close>

text \<open>
  The pattern of \<open>apply_cors\<close> is made of literal characters and of \<open>.*\<close> only.
  \<open>re_match\<close> is \<open>re.match\<close> on such a pattern: it matches at the start of the string
  and does not ask the match to reach the end; \<open>.\<close> is any character but the newline.
\<close>

datatype re_item = Lit char | DotStar

fun re_match :: "re_item list \<Rightarrow> string \<Rightarrow> bool" where
  "re_match [] s = True"
| "re_match (Lit c # p) [] = False"
| "re_match (Lit c # p) (x # s) = (x = c \<and> re_match p s)"
| "re_match (DotStar # p) [] = re_match p []"
| "re_match (DotStar # p) (x # s) =
     (re_match p (x # s) \<or> (x \<noteq> CHR 0x0A \<and> re_match (DotStar # p) s))"

definition origin_pattern :: "re_item list" where
  "origin_pattern =
     map Lit ''https://'' @ [DotStar] @ map Lit ''unycompass'' @ [DotStar]
       @ map Lit ''.vercel.app''"


subsection \<open>The collaborator and the module's globals\<close>

text \<open>
  The three ways the module calls the bot: \<open>bot.answer_question(q)\<close>,
  \<open>bot.answer_question(q, session_id=sid)\<close> and \<open>bot.clear_session_memory(sid)\<close>.
  A collaborator maps a call and the bot's state to the value returned or the exception
  raised, and to the bot's next state.
\<close>

datatype bot_call =
    AnswerQuestion string
  | AnswerQuestionSession string json
  | ClearSessionMemory nat

type_synonym 'b collaborator = "bot_call \<Rightarrow> 'b \<Rightarrow> (py_exception + json) \<times> 'b"

text \<open>The globals \<open>CHATBOT_READY\<close>, \<open>CHATBOT_ERROR\<close> and \<open>bot\<close>, and a log of the calls made
  to the bot so far (the log is not in the code; it records what the gateway passed on).\<close>

record 'b gateway =
  CHATBOT_READY :: bool
  CHATBOT_ERROR :: "string option"
  bot :: "'b option"
  calls :: "bot_call list"

text \<open>Lines 44 to 54: the argument is the outcome of constructing the database and the bot.\<close>

definition startup :: "py_exception + 'b \<Rightarrow> 'b gateway" where
  "startup construction =
     (case construction of
        Inr b \<Rightarrow> \<lparr>CHATBOT_READY = True, CHATBOT_ERROR = None, bot = Some b, calls = []\<rparr>
      | Inl e \<Rightarrow>
          \<lparr>CHATBOT_READY = False, CHATBOT_ERROR = Some (str_exc e), bot = None, calls = []\<rparr>)"

text \<open>A method call on the global \<open>bot\<close>; on \<open>None\<close> the attribute lookup raises.\<close>

definition invoke ::
  "'b collaborator \<Rightarrow> bot_call \<Rightarrow> 'b gateway \<Rightarrow> (py_exception + json) \<times> 'b gateway" where
  "invoke collab c g =
     (case bot g of
        None \<Rightarrow> (Inl (PyException ''AttributeError: NoneType object has no such attribute''), g)
      | Some b \<Rightarrow>
          (case collab c b of
             (r, b') \<Rightarrow> (r, g\<lparr>bot := Some b', calls := calls g @ [c]\<rparr>)))"

subsection \<open>Asking a question\<close>

text \<open>\<open>not question or not question.strip()\<close>: a falsy value is blank; a non-empty str is
  blank when stripping leaves nothing; any other truthy value has no \<open>strip\<close>.\<close>

definition is_blank :: "json \<Rightarrow> py_exception + bool" where
  "is_blank question =
     (if \<not> truthy question then Inr True
      else case question of
             JStr s \<Rightarrow> Inr (strip s = [])
           | _ \<Rightarrow> Inl (PyException ''AttributeError: object has no attribute strip''))"

definition py_strip :: "json \<Rightarrow> py_exception + string" where
  "py_strip question =
     (case question of
        JStr s \<Rightarrow> Inr (strip s)
      | _ \<Rightarrow> Inl (PyException ''AttributeError: object has no attribute strip''))"

text \<open>The body shared by \<open>ask_question\<close> and \<open>ask_question_with_session\<close>, which differ in
  the call they make. The two checks come before the \<open>try\<close>, so an exception of the second
  leaves the function; inside the \<open>try\<close> every exception becomes an error dict.
  \<open>now\<close> is \<open>str(datetime.now())\<close>.\<close>

definition ask_with ::
  "(string \<Rightarrow> bot_call) \<Rightarrow> 'b collaborator \<Rightarrow> string \<Rightarrow> json \<Rightarrow> 'b gateway
     \<Rightarrow> (py_exception + (string \<times> json) list) \<times> 'b gateway" where
  "ask_with mk collab now question g =
     (if \<not> CHATBOT_READY g then
        (Inr [(''error'', JStr (''Chatbot not available: '' @ str_opt (CHATBOT_ERROR g)))], g)
      else case is_blank question of
        Inl e \<Rightarrow> (Inl e, g)
      | Inr True \<Rightarrow> (Inr [(''error'', JStr ''Question cannot be empty'')], g)
      | Inr False \<Rightarrow>
          (case py_strip question of
             Inl e \<Rightarrow>
               (Inr [(''error'', JStr (''Error processing question: '' @ str_exc e))], g)
           | Inr q \<Rightarrow>
               (case invoke collab (mk q) g of
                  (Inl e, g') \<Rightarrow>
                    (Inr [(''error'', JStr (''Error processing question: '' @ str_exc e))], g')
                | (Inr answer, g') \<Rightarrow>
                    (Inr [(''success'', JBool True), (''question'', question),
                          (''answer'', answer), (''timestamp'', JStr now)], g'))))"

definition ask_question ::
  "'b collaborator \<Rightarrow> string \<Rightarrow> json \<Rightarrow> 'b gateway
     \<Rightarrow> (py_exception + (string \<times> json) list) \<times> 'b gateway" where
  "ask_question = ask_with AnswerQuestion"

definition ask_question_with_session ::
  "'b collaborator \<Rightarrow> string \<Rightarrow> json \<Rightarrow> json \<Rightarrow> 'b gateway
     \<Rightarrow> (py_exception + (string \<times> json) list) \<times> 'b gateway" where
  "ask_question_with_session collab now question session_id =
     ask_with (\<lambda>q. AnswerQuestionSession q session_id) collab now question"

subsection \<open>Responses\<close>

datatype resp_body = Json json | Text string

record response =
  status_code :: nat
  body :: resp_body
  headers :: "(string \<times> string) list"

definition jsonify :: "(string \<times> json) list \<Rightarrow> nat \<Rightarrow> response" where
  "jsonify d code = \<lparr>status_code = code, body = Json (JDict d), headers = []\<rparr>"

definition text_response :: "string \<Rightarrow> nat \<Rightarrow> response" where
  "text_response s code = \<lparr>status_code = code, body = Text s, headers = []\<rparr>"

text \<open>\<open>response[k]\<close> on the dict an ask function returned.\<close>

definition item :: "(string \<times> json) list \<Rightarrow> string \<Rightarrow> py_exception + json" where
  "item d k = py_getitem (JDict d) k"

subsection \<open>The routes\<close>

datatype http_method = GET | HEAD | POST | OPTIONS | OtherMethod string

definition missing_message :: response where
  "missing_message =
     jsonify [(''error'', JStr ''Please provide a 'message' field in your request'')] 400"

text \<open>\<open>GET /\<close>.\<close>

definition health_check :: "'b gateway \<Rightarrow> response" where
  "health_check g =
     jsonify [(''status'', JStr ''healthy''),
              (''message'', JStr ''Hunter College Chatbot API is running''),
              (''chatbot_ready'', JBool (CHATBOT_READY g))] 200"

text \<open>\<open>GET /status\<close>.\<close>

definition status :: "'b gateway \<Rightarrow> response" where
  "status g =
     jsonify [(''status'', JStr (if CHATBOT_READY g then ''ready'' else ''error'')),
              (''chatbot_ready'', JBool (CHATBOT_READY g)),
              (''error'',
                 (if \<not> CHATBOT_READY g
                  then (case CHATBOT_ERROR g of Some e \<Rightarrow> JStr e | None \<Rightarrow> JNull)
                  else JNull))] 200"

text \<open>\<open>GET\<close> or \<open>OPTIONS /api/chatbot/status\<close>.\<close>

definition chatbot_status :: "http_method \<Rightarrow> 'b gateway \<Rightarrow> response" where
  "chatbot_status m g =
     (if m = OPTIONS then text_response [] 200
      else
        jsonify [(''status'', JStr (if CHATBOT_READY g then ''online'' else ''error'')),
                 (''pythonWorking'', JBool (CHATBOT_READY g)),
                 (''message'',
                    JStr (if CHATBOT_READY g then ''Hunter AI chatbot is ready''
                          else ''Chatbot error: '' @ str_opt (CHATBOT_ERROR g))),
                 (''service'', JStr ''chatbot'')] 200)"

text \<open>\<open>POST /chat\<close>; \<open>data\<close> is what \<open>request.get_json()\<close> returned.\<close>

definition chat ::
  "'b collaborator \<Rightarrow> string \<Rightarrow> json \<Rightarrow> 'b gateway \<Rightarrow> (py_exception + response) \<times> 'b gateway"
  where
  "chat collab now data g =
     (if \<not> truthy data then (Inr missing_message, g)
      else case py_in ''message'' data of
        Inl e \<Rightarrow> (Inl e, g)
      | Inr False \<Rightarrow> (Inr missing_message, g)
      | Inr True \<Rightarrow>
          (case py_getitem data ''message'' of
             Inl e \<Rightarrow> (Inl e, g)
           | Inr message \<Rightarrow>
               (case ask_question collab now message g of
                  (Inl e, g') \<Rightarrow> (Inl e, g')
                | (Inr resp, g') \<Rightarrow>
                    if ''error'' \<in> set (map fst resp) then (Inr (jsonify resp 500), g')
                    else
                      (case (item resp ''question'', item resp ''answer'',
                             item resp ''timestamp'') of
                         (Inr q, Inr a, Inr t) \<Rightarrow>
                           (Inr (jsonify [(''question'', q), (''response'', a),
                                          (''timestamp'', t)] 200), g')
                       | _ \<Rightarrow> (Inl (PyException ''KeyError''), g')))))"

text \<open>\<open>POST\<close> or \<open>OPTIONS /api/chatbot/ask\<close>. The \<open>print\<close> of the message is not modelled.\<close>

definition chatbot_ask ::
  "'b collaborator \<Rightarrow> string \<Rightarrow> http_method \<Rightarrow> json \<Rightarrow> 'b gateway
     \<Rightarrow> (py_exception + response) \<times> 'b gateway" where
  "chatbot_ask collab now m data g =
     (if m = OPTIONS then (Inr (text_response [] 200), g)
      else if \<not> truthy data then (Inr missing_message, g)
      else case py_in ''message'' data of
        Inl e \<Rightarrow> (Inl e, g)
      | Inr False \<Rightarrow> (Inr missing_message, g)
      | Inr True \<Rightarrow>
          (case py_getitem data ''message'' of
             Inl e \<Rightarrow> (Inl e, g)
           | Inr message \<Rightarrow>
               (case py_get data ''session_id'' of
                  Inl e \<Rightarrow> (Inl e, g)
                | Inr session_id \<Rightarrow>
                    (case ask_question_with_session collab now message session_id g of
                       (Inl e, g') \<Rightarrow> (Inl e, g')
                     | (Inr resp, g') \<Rightarrow>
                         if ''error'' \<in> set (map fst resp) then (Inr (jsonify resp 500), g')
                         else
                           (case (item resp ''question'', item resp ''answer'',
                                  item resp ''timestamp'') of
                              (Inr q, Inr a, Inr t) \<Rightarrow>
                                (Inr (jsonify [(''question'', q), (''response'', a),
                                               (''timestamp'', t),
                                               (''session_id'', session_id)] 200), g')
                            | _ \<Rightarrow> (Inl (PyException ''KeyError''), g'))))))"

text \<open>\<open>POST /api/chatbot/reset/<int:session_id>\<close>; the converter accepts digits only, so
  the identifier is a natural number.\<close>

definition reset_session_memory ::
  "'b collaborator \<Rightarrow> nat \<Rightarrow> 'b gateway \<Rightarrow> response \<times> 'b gateway" where
  "reset_session_memory collab session_id g =
     (if \<not> CHATBOT_READY g then (jsonify [(''error'', JStr ''Chatbot not available'')] 500, g)
      else case invoke collab (ClearSessionMemory session_id) g of
        (Inl e, g') \<Rightarrow>
          (jsonify [(''error'', JStr (''Failed to reset session memory: '' @ str_exc e))] 500,
           g')
      | (Inr _, g') \<Rightarrow>
          (jsonify [(''message'', JStr (''Memory reset for session '' @ str_nat session_id))]
             200, g'))"

subsection \<open>Cross-origin headers\<close>

text \<open>\<open>response.headers[k] = v\<close> replaces what the header held.\<close>

definition set_header :: "string \<Rightarrow> string \<Rightarrow> (string \<times> string) list \<Rightarrow> (string \<times> string) list"
  where
  "set_header k v hs = (k, v) # filter (\<lambda>kv. fst kv \<noteq> k) hs"

text \<open>The \<open>after_request\<close> hook of lines 32 to 40; \<open>origin\<close> is
  \<open>request.headers.get('Origin')\<close>.\<close>

definition apply_cors :: "string option \<Rightarrow> response \<Rightarrow> response" where
  "apply_cors origin resp =
     (case origin of
        None \<Rightarrow> resp
      | Some orig \<Rightarrow>
          if orig \<noteq> [] \<and> re_match origin_pattern orig then
            resp\<lparr>headers :=
              set_header ''Access-Control-Allow-Headers'' ''Content-Type, Authorization''
                (set_header ''Access-Control-Allow-Methods'' ''GET, POST, OPTIONS''
                  (set_header ''Access-Control-Allow-Credentials'' ''true''
                    (set_header ''Access-Control-Allow-Origin'' orig (headers resp))))\<rparr>
          else resp)"

text \<open>\<open>str.lower\<close> on the code points below 256.\<close>

definition lower_char :: "char \<Rightarrow> char" where
  "lower_char c =
     (let n = (of_char c :: nat)
      in if (65 \<le> n \<and> n \<le> 90) \<or> (192 \<le> n \<and> n \<le> 222 \<and> n \<noteq> 215)
         then char_of (n + 32) else c)"

definition static_origins :: "string list" where
  "static_origins = [''http://localhost:3000'', ''https://unycompass.vercel.app'']"

text \<open>
  The hook that \<open>CORS(app, origins=..., supports_credentials=True, ...)\<close> of lines 22 to 29
  installs. The extension leaves a response alone that already carries an
  \<open>Access-Control-Allow-Origin\<close>; otherwise it compares the request's origin with the
  listed ones, letter case aside, and on a match echoes the origin and allows credentials.
  Of the headers it sets, these two are tracked.
\<close>

definition cors_after_request :: "string option \<Rightarrow> response \<Rightarrow> response" where
  "cors_after_request origin resp =
     (case map_of (headers resp) ''Access-Control-Allow-Origin'' of
        Some (c # cs) \<Rightarrow> resp
      | _ \<Rightarrow>
          (case origin of
             None \<Rightarrow> resp
           | Some orig \<Rightarrow>
               if orig \<noteq> [] \<and> map lower_char orig \<in> set (map (map lower_char) static_origins)
               then
                 resp\<lparr>headers :=
                   set_header ''Access-Control-Allow-Credentials'' ''true''
                     (set_header ''Access-Control-Allow-Origin'' orig (headers resp))\<rparr>
               else resp))"

subsection \<open>Serving a request\<close>

text \<open>The URL rules of the module, with the argument of the one rule that has a variable.\<close>

datatype route =
    Health_check
  | Chat
  | Status
  | Chatbot_status
  | Chatbot_ask
  | Reset_session_memory nat

fun route_methods :: "route \<Rightarrow> http_method list" where
  "route_methods Health_check = [GET]"
| "route_methods Chat = [POST]"
| "route_methods Status = [GET]"
| "route_methods Chatbot_status = [GET, OPTIONS]"
| "route_methods Chatbot_ask = [POST, OPTIONS]"
| "route_methods (Reset_session_memory sid) = [POST]"

text \<open>A request after URL matching: its method, the rule its path matched (none for an
  unknown path), its \<open>Origin\<close> header and the value \<open>request.get_json()\<close> gives.\<close>

record request =
  req_method :: http_method
  req_rule :: "route option"
  req_origin :: "string option"
  req_json :: json

text \<open>A request with a matched rule, written in one line.\<close>

abbreviation mk_request ::
  "http_method \<Rightarrow> route \<Rightarrow> string option \<Rightarrow> json \<Rightarrow> request" where
  "mk_request m rt og d \<equiv>
     \<lparr>req_method = m, req_rule = Some rt, req_origin = og, req_json = d\<rparr>"

fun view ::
  "'b collaborator \<Rightarrow> string \<Rightarrow> request \<Rightarrow> route \<Rightarrow> 'b gateway
     \<Rightarrow> (py_exception + response) \<times> 'b gateway" where
  "view collab now req Health_check g = (Inr (health_check g), g)"
| "view collab now req Chat g = chat collab now (req_json req) g"
| "view collab now req Status g = (Inr (status g), g)"
| "view collab now req Chatbot_status g = (Inr (chatbot_status (req_method req) g), g)"
| "view collab now req Chatbot_ask g = chatbot_ask collab now (req_method req) (req_json req) g"
| "view collab now req (Reset_session_memory sid) g =
     (case reset_session_memory collab sid g of (resp, g') \<Rightarrow> (Inr resp, g'))"

text \<open>
  Flask's dispatch for these rules: an unknown path is a 404; a rule that does not list
  \<open>OPTIONS\<close> answers it with an empty 200 without running the view; \<open>HEAD\<close> runs the view
  of a \<open>GET\<close> rule and sends no body; any other method a rule does not list is a 405.
\<close>

definition dispatch_request ::
  "'b collaborator \<Rightarrow> string \<Rightarrow> request \<Rightarrow> 'b gateway \<Rightarrow> (py_exception + response) \<times> 'b gateway"
  where
  "dispatch_request collab now req g =
     (case req_rule req of
        None \<Rightarrow> (Inr (text_response ''Not Found'' 404), g)
      | Some r \<Rightarrow>
          if req_method req = OPTIONS \<and> OPTIONS \<notin> set (route_methods r)
          then (Inr (text_response [] 200), g)
          else if req_method req \<in> set (route_methods r) then view collab now req r g
          else if req_method req = HEAD \<and> GET \<in> set (route_methods r)
          then (case view collab now req r g of
                  (Inl e, g') \<Rightarrow> (Inl e, g')
                | (Inr resp, g') \<Rightarrow> (Inr (resp\<lparr>body := Text []\<rparr>), g'))
          else (Inr (text_response ''Method Not Allowed'' 405), g))"

text \<open>One request, start to end. The hooks run in the reverse of their registration, so
  \<open>apply_cors\<close> comes first. An exception that left the view is the server's 500 page,
  which, in the debug mode of line 187, does not pass through the hooks.\<close>

definition serve ::
  "'b collaborator \<Rightarrow> string \<Rightarrow> request \<Rightarrow> 'b gateway \<Rightarrow> response \<times> 'b gateway" where
  "serve collab now req g =
     (case dispatch_request collab now req g of
        (Inl e, g') \<Rightarrow> (text_response ''Internal Server Error'' 500, g')
      | (Inr resp, g') \<Rightarrow>
          (cors_after_request (req_origin req) (apply_cors (req_origin req) resp), g'))"

text \<open>A sequence of requests, each with the clock reading at its time.\<close>

fun serve_all ::
  "'b collaborator \<Rightarrow> (string \<times> request) list \<Rightarrow> 'b gateway \<Rightarrow> response list \<times> 'b gateway"
  where
  "serve_all collab [] g = ([], g)"
| "serve_all collab ((now, req) # rest) g =
     (case serve collab now req g of
        (resp, g') \<Rightarrow>
          (case serve_all collab rest g' of (resps, g'') \<Rightarrow> (resp # resps, g'')))"

text \<open>Reading a key of a JSON response body.\<close>

definition body_field :: "response \<Rightarrow> string \<Rightarrow> json option" where
  "body_field resp k = (case body resp of Json (JDict d) \<Rightarrow> map_of d k | _ \<Rightarrow> None)"

subsection \<open>Stub collaborators\<close>

text \<open>A bot that answers every question with a fixed string and counts its calls, and a
  bot whose every method raises.\<close>

definition fixed_bot :: "string \<Rightarrow> nat collaborator" where
  "fixed_bot answer c n = (Inr (JStr answer), Suc n)"

definition raising_bot :: "string \<Rightarrow> nat collaborator" where
  "raising_bot msg c n = (Inl (PyException msg), Suc n)"

section \<open>Properties\<close>

subsection \<open>What the hooks leave alone\<close>

lemma apply_cors_keeps:
  "status_code (apply_cors og r) = status_code r" "body (apply_cors og r) = body r"
  by (simp_all add: apply_cors_def split: option.split)

lemma cors_after_request_keeps:
  "status_code (cors_after_request og r) = status_code r"
  "body (cors_after_request og r) = body r"
  by (simp_all add: cors_after_request_def split: option.split list.split)

lemma body_field_hooks:
  "body_field (cors_after_request og (apply_cors og r)) k = body_field r k"
  by (simp add: body_field_def cors_after_request_keeps apply_cors_keeps)

lemma status_hooks:
  "status_code (cors_after_request og (apply_cors og r)) = status_code r"
  by (simp add: cors_after_request_keeps apply_cors_keeps)

lemma body_hooks:
  "body (cors_after_request og (apply_cors og r)) = body r"
  by (simp add: cors_after_request_keeps apply_cors_keeps)

lemma body_field_jsonify: "body_field (jsonify d c) k = map_of d k"
  by (simp add: body_field_def jsonify_def)

lemma status_code_jsonify: "status_code (jsonify d c) = c"
  by (simp add: jsonify_def)

lemma body_jsonify: "body (jsonify d c) = Json (JDict d)"
  by (simp add: jsonify_def)

subsection \<open>Serving, route by route\<close>

lemma serve_chat:
  "serve collab now
     \<lparr>req_method = POST, req_rule = Some Chat, req_origin = og, req_json = d\<rparr> g =
     (case chat collab now d g of
        (Inl e, g') \<Rightarrow> (text_response ''Internal Server Error'' 500, g')
      | (Inr resp, g') \<Rightarrow> (cors_after_request og (apply_cors og resp), g'))"
  by (simp add: serve_def dispatch_request_def split: prod.split sum.split)

lemma serve_chatbot_ask:
  "serve collab now
     \<lparr>req_method = POST, req_rule = Some Chatbot_ask, req_origin = og, req_json = d\<rparr> g =
     (case chatbot_ask collab now POST d g of
        (Inl e, g') \<Rightarrow> (text_response ''Internal Server Error'' 500, g')
      | (Inr resp, g') \<Rightarrow> (cors_after_request og (apply_cors og resp), g'))"
  by (simp add: serve_def dispatch_request_def split: prod.split sum.split)

lemma serve_reset:
  "serve collab now
     \<lparr>req_method = POST, req_rule = Some (Reset_session_memory sid), req_origin = og,
      req_json = d\<rparr> g =
     (case reset_session_memory collab sid g of
        (resp, g') \<Rightarrow> (cors_after_request og (apply_cors og resp), g'))"
  by (simp add: serve_def dispatch_request_def split: prod.split sum.split)

lemma serve_get_views:
  "fst (serve collab now (mk_request GET Health_check og d) g)
     = cors_after_request og (apply_cors og (health_check g))"
  "fst (serve collab now (mk_request GET Status og d) g)
     = cors_after_request og (apply_cors og (status g))"
  "fst (serve collab now (mk_request GET Chatbot_status og d) g)
     = cors_after_request og (apply_cors og (chatbot_status GET g))"
  by (simp_all add: serve_def dispatch_request_def)

lemma serve_health_routes:
  "snd (serve collab now (mk_request m Health_check og d) g) = g"
  "snd (serve collab now (mk_request m Status og d) g) = g"
  "snd (serve collab now (mk_request m Chatbot_status og d) g) = g"
  by (simp_all add: serve_def dispatch_request_def)

lemma serve_result_chat:
  assumes "serve collab now (mk_request POST Chat og d) g = (resp, g')"
    and "chat collab now d g = (Inr r, g1)"
  shows "status_code resp = status_code r \<and> body resp = body r \<and> g' = g1
         \<and> body_field resp k = body_field r k"
  using assms by (auto simp: serve_chat status_hooks body_hooks body_field_hooks)

lemma serve_result_chatbot_ask:
  assumes "serve collab now (mk_request POST Chatbot_ask og d) g = (resp, g')"
    and "chatbot_ask collab now POST d g = (Inr r, g1)"
  shows "status_code resp = status_code r \<and> body resp = body r \<and> g' = g1
         \<and> body_field resp k = body_field r k"
  using assms by (auto simp: serve_chatbot_ask status_hooks body_hooks body_field_hooks)

lemma serve_result_reset:
  assumes "serve collab now (mk_request POST (Reset_session_memory sid) og d) g = (resp, g')"
    and "reset_session_memory collab sid g = (r, g1)"
  shows "status_code resp = status_code r \<and> body resp = body r \<and> g' = g1
         \<and> body_field resp k = body_field r k"
  using assms by (auto simp: serve_reset status_hooks body_hooks body_field_hooks)

subsection \<open>The handlers, case by case\<close>

lemma key_in_dict: "k \<in> fst ` set kvs \<longleftrightarrow> map_of kvs k \<noteq> None"
  by (simp add: map_of_eq_None_iff)

lemma chat_missing:
  "map_of kvs ''message'' = None \<Longrightarrow> chat collab now (JDict kvs) g = (Inr missing_message, g)"
  by (simp add: chat_def key_in_dict)

lemma chatbot_ask_missing:
  "map_of kvs ''message'' = None \<Longrightarrow>
   chatbot_ask collab now POST (JDict kvs) g = (Inr missing_message, g)"
  by (simp add: chatbot_ask_def key_in_dict)

lemma chat_present:
  "map_of kvs ''message'' = Some v \<Longrightarrow>
   chat collab now (JDict kvs) g =
     (case ask_question collab now v g of
        (Inl e, g') \<Rightarrow> (Inl e, g')
      | (Inr resp, g') \<Rightarrow>
          if ''error'' \<in> set (map fst resp) then (Inr (jsonify resp 500), g')
          else
            (case (item resp ''question'', item resp ''answer'', item resp ''timestamp'') of
               (Inr q, Inr a, Inr t) \<Rightarrow>
                 (Inr (jsonify [(''question'', q), (''response'', a), (''timestamp'', t)] 200),
                  g')
             | _ \<Rightarrow> (Inl (PyException ''KeyError''), g')))"
  by (auto simp add: chat_def key_in_dict)

lemma chatbot_ask_present:
  "map_of kvs ''message'' = Some v \<Longrightarrow>
   chatbot_ask collab now POST (JDict kvs) g =
     (case ask_question_with_session collab now v
             (case map_of kvs ''session_id'' of Some s \<Rightarrow> s | None \<Rightarrow> JNull) g of
        (Inl e, g') \<Rightarrow> (Inl e, g')
      | (Inr resp, g') \<Rightarrow>
          if ''error'' \<in> set (map fst resp) then (Inr (jsonify resp 500), g')
          else
            (case (item resp ''question'', item resp ''answer'', item resp ''timestamp'') of
               (Inr q, Inr a, Inr t) \<Rightarrow>
                 (Inr (jsonify [(''question'', q), (''response'', a), (''timestamp'', t),
                    (''session_id'',
                       (case map_of kvs ''session_id'' of Some s \<Rightarrow> s | None \<Rightarrow> JNull))] 200),
                  g')
             | _ \<Rightarrow> (Inl (PyException ''KeyError''), g')))"
  by (auto simp add: chatbot_ask_def key_in_dict)

lemma strip_Nil: "strip [] = []"
  by (simp add: strip_def)

lemma ask_with_blank:
  "strip m = [] \<Longrightarrow>
   ask_with mk collab now (JStr m) g =
     (Inr [(''error'',
            JStr (if CHATBOT_READY g then ''Question cannot be empty''
                  else ''Chatbot not available: '' @ str_opt (CHATBOT_ERROR g)))], g)"
  by (simp add: ask_with_def is_blank_def)

lemma ask_with_unavailable:
  "\<not> CHATBOT_READY g \<Longrightarrow>
   ask_with mk collab now q g =
     (Inr [(''error'', JStr (''Chatbot not available: '' @ str_opt (CHATBOT_ERROR g)))], g)"
  by (simp add: ask_with_def)

lemma invoke_some:
  "bot g = Some b \<Longrightarrow> collab c b = (r, b') \<Longrightarrow>
   invoke collab c g = (r, g\<lparr>bot := Some b', calls := calls g @ [c]\<rparr>)"
  by (simp add: invoke_def)

lemma ask_with_valid:
  assumes "CHATBOT_READY g" and "strip m \<noteq> []"
  shows "ask_with mk collab now (JStr m) g =
     (case invoke collab (mk (strip m)) g of
        (Inl e, g') \<Rightarrow>
          (Inr [(''error'', JStr (''Error processing question: '' @ str_exc e))], g')
      | (Inr answer, g') \<Rightarrow>
          (Inr [(''success'', JBool True), (''question'', JStr m),
                (''answer'', answer), (''timestamp'', JStr now)], g'))"
proof -
  from assms(2) have "m \<noteq> []" by (auto simp: strip_Nil)
  with assms show ?thesis
    by (simp add: ask_with_def is_blank_def py_strip_def)
qed


lemma ask_with_answers:
  assumes "CHATBOT_READY g" and "strip m \<noteq> []" and "bot g = Some b"
    and "collab (mk (strip m)) b = (Inr a, b')"
  shows "ask_with mk collab now (JStr m) g =
     (Inr [(''success'', JBool True), (''question'', JStr m),
           (''answer'', a), (''timestamp'', JStr now)],
      g\<lparr>bot := Some b', calls := calls g @ [mk (strip m)]\<rparr>)"
  using assms by (simp add: ask_with_valid invoke_some)


lemma chat_answers:
  assumes "CHATBOT_READY g" and "strip m \<noteq> []" and "bot g = Some b"
    and "map_of kvs ''message'' = Some (JStr m)"
    and "collab (AnswerQuestion (strip m)) b = (Inr a, b')"
  shows "chat collab now (JDict kvs) g =
     (Inr (jsonify [(''question'', JStr m), (''response'', a), (''timestamp'', JStr now)] 200),
      g\<lparr>bot := Some b', calls := calls g @ [AnswerQuestion (strip m)]\<rparr>)"
  using assms by (simp add: chat_present ask_question_def ask_with_answers item_def)


lemma chatbot_ask_answers:
  assumes "CHATBOT_READY g" and "strip m \<noteq> []" and "bot g = Some b"
    and "map_of kvs ''message'' = Some (JStr m)"
    and "sid = (case map_of kvs ''session_id'' of Some s \<Rightarrow> s | None \<Rightarrow> JNull)"
    and "collab (AnswerQuestionSession (strip m) sid) b = (Inr a, b')"
  shows "chatbot_ask collab now POST (JDict kvs) g =
     (Inr (jsonify [(''question'', JStr m), (''response'', a), (''timestamp'', JStr now),
                    (''session_id'', sid)] 200),
      g\<lparr>bot := Some b', calls := calls g @ [AnswerQuestionSession (strip m) sid]\<rparr>)"
  using assms
  by (simp add: chatbot_ask_present ask_question_with_session_def ask_with_answers item_def)

lemma chat_unavailable:
  assumes "\<not> CHATBOT_READY g" and "map_of kvs ''message'' = Some v"
  shows "chat collab now (JDict kvs) g =
     (Inr (jsonify [(''error'',
                     JStr (''Chatbot not available: '' @ str_opt (CHATBOT_ERROR g)))] 500), g)"
  using assms by (simp add: chat_present ask_question_def ask_with_unavailable)

lemma chatbot_ask_unavailable:
  assumes "\<not> CHATBOT_READY g" and "map_of kvs ''message'' = Some v"
  shows "chatbot_ask collab now POST (JDict kvs) g =
     (Inr (jsonify [(''error'',
                     JStr (''Chatbot not available: '' @ str_opt (CHATBOT_ERROR g)))] 500), g)"
  using assms
  by (simp add: chatbot_ask_present ask_question_with_session_def ask_with_unavailable)

lemma reset_raises:
  assumes "CHATBOT_READY g" and "bot g = Some b"
    and "collab (ClearSessionMemory sid) b = (Inl e, b')"
  shows "reset_session_memory collab sid g =
     (jsonify [(''error'', JStr (''Failed to reset session memory: '' @ str_exc e))] 500,
      g\<lparr>bot := Some b', calls := calls g @ [ClearSessionMemory sid]\<rparr>)"
  using assms by (simp add: reset_session_memory_def invoke_some)

lemma reset_succeeds:
  assumes "CHATBOT_READY g" and "bot g = Some b"
    and "collab (ClearSessionMemory sid) b = (Inr v, b')"
  shows "reset_session_memory collab sid g =
     (jsonify [(''message'', JStr (''Memory reset for session '' @ str_nat sid))] 200,
      g\<lparr>bot := Some b', calls := calls g @ [ClearSessionMemory sid]\<rparr>)"
  using assms by (simp add: reset_session_memory_def invoke_some)

lemma reset_unavailable:
  "\<not> CHATBOT_READY g \<Longrightarrow>
   reset_session_memory collab sid g =
     (jsonify [(''error'', JStr ''Chatbot not available'')] 500, g)"
  by (simp add: reset_session_memory_def)

subsection \<open>The two globals are never written after startup\<close>

lemma invoke_flags:
  "invoke collab c g = (r, g') \<Longrightarrow>
   CHATBOT_READY g' = CHATBOT_READY g \<and> CHATBOT_ERROR g' = CHATBOT_ERROR g"
  by (auto simp: invoke_def split: option.splits prod.splits)

lemma ask_with_flags:
  "ask_with mk collab now q g = (r, g') \<Longrightarrow>
   CHATBOT_READY g' = CHATBOT_READY g \<and> CHATBOT_ERROR g' = CHATBOT_ERROR g"
  by (auto simp: ask_with_def split: if_splits sum.splits bool.splits prod.splits
      dest: invoke_flags)

lemma chat_flags:
  "chat collab now d g = (r, g') \<Longrightarrow>
   CHATBOT_READY g' = CHATBOT_READY g \<and> CHATBOT_ERROR g' = CHATBOT_ERROR g"
  by (auto simp: chat_def ask_question_def split: if_splits sum.splits bool.splits prod.splits
      dest: ask_with_flags)

lemma chatbot_ask_flags:
  "chatbot_ask collab now m d g = (r, g') \<Longrightarrow>
   CHATBOT_READY g' = CHATBOT_READY g \<and> CHATBOT_ERROR g' = CHATBOT_ERROR g"
  by (auto simp: chatbot_ask_def ask_question_with_session_def
      split: if_splits sum.splits bool.splits prod.splits
      dest: ask_with_flags)

lemma reset_flags:
  "reset_session_memory collab sid g = (r, g') \<Longrightarrow>
   CHATBOT_READY g' = CHATBOT_READY g \<and> CHATBOT_ERROR g' = CHATBOT_ERROR g"
  by (auto simp: reset_session_memory_def split: if_splits sum.splits prod.splits
      dest: invoke_flags)

lemma view_flags:
  "view collab now req rt g = (r, g') \<Longrightarrow>
   CHATBOT_READY g' = CHATBOT_READY g \<and> CHATBOT_ERROR g' = CHATBOT_ERROR g"
  by (cases rt) (auto split: prod.splits dest: chat_flags chatbot_ask_flags reset_flags)

lemma dispatch_request_flags:
  "dispatch_request collab now req g = (r, g') \<Longrightarrow>
   CHATBOT_READY g' = CHATBOT_READY g \<and> CHATBOT_ERROR g' = CHATBOT_ERROR g"
  by (auto simp: dispatch_request_def split: option.splits if_splits prod.splits sum.splits
      dest: view_flags)

lemma serve_flags:
  "serve collab now req g = (r, g') \<Longrightarrow>
   CHATBOT_READY g' = CHATBOT_READY g \<and> CHATBOT_ERROR g' = CHATBOT_ERROR g"
  by (auto simp: serve_def split: prod.splits sum.splits dest: dispatch_request_flags)

lemma serve_all_step:
  "snd (serve_all collab ((now, req) # rs) g) =
   snd (serve_all collab rs (snd (serve collab now req g)))"
  by (simp split: prod.split)

lemma serve_all_flags:
  "CHATBOT_READY (snd (serve_all collab rs g)) = CHATBOT_READY g
   \<and> CHATBOT_ERROR (snd (serve_all collab rs g)) = CHATBOT_ERROR g"
proof (induction rs arbitrary: g)
  case Nil
  show ?case by simp
next
  case (Cons nr rs)
  obtain now req where nr: "nr = (now, req)" by (cases nr)
  obtain resp g' where s: "serve collab now req g = (resp, g')" by (cases "serve collab now req g")
  from serve_flags [OF s] Cons.IH [of g'] show ?case
    unfolding nr serve_all_step s by simp
qed

lemma failed_startup_flags:
  assumes "g = snd (serve_all collab rs (startup (Inl e)))"
  shows "\<not> CHATBOT_READY g" and "CHATBOT_ERROR g = Some (str_exc e)"
  using assms serve_all_flags [of collab rs "startup (Inl e)"]
  by (simp_all add: startup_def)

subsection \<open>What the origin pattern accepts\<close>

text \<open>A literal run consumes exactly its characters; \<open>.*\<close> consumes any run without a
  newline. So the pattern accepts the strings that start with \<open>https://\<close> and hold
  \<open>unycompass\<close> and, somewhere after it, \<open>.vercel.app\<close>, with anything at all behind.\<close>

lemma re_match_literals:
  "re_match (map Lit w @ p) s \<longleftrightarrow> (\<exists>t. s = w @ t \<and> re_match p t)"
proof (induction w arbitrary: s)
  case Nil
  show ?case by simp
next
  case (Cons c w)
  show ?case
  proof (cases s)
    case Nil
    then show ?thesis by simp
  next
    case (Cons x s')
    then show ?thesis using Cons.IH [of s'] by auto
  qed
qed

lemma re_match_literals_end: "re_match (map Lit w) s \<longleftrightarrow> (\<exists>c. s = w @ c)"
  using re_match_literals [of w "[]" s] by simp

lemma re_match_dotstar:
  "re_match (DotStar # p) s \<longleftrightarrow>
     (\<exists>a t. s = a @ t \<and> CHR 0x0A \<notin> set a \<and> re_match p t)"
proof (induction s)
  case Nil
  show ?case by simp
next
  case (Cons x s)
  show ?case
  proof
    assume "re_match (DotStar # p) (x # s)"
    then consider "re_match p (x # s)" | "x \<noteq> CHR 0x0A" "re_match (DotStar # p) s"
      by auto
    then show "\<exists>a t. x # s = a @ t \<and> CHR 0x0A \<notin> set a \<and> re_match p t"
    proof cases
      case 1
      then have "x # s = [] @ (x # s) \<and> CHR 0x0A \<notin> set [] \<and> re_match p (x # s)" by simp
      then show ?thesis by blast
    next
      case 2
      with Cons.IH obtain a t where "s = a @ t" "CHR 0x0A \<notin> set a" "re_match p t" by blast
      with 2 have "x # s = (x # a) @ t \<and> CHR 0x0A \<notin> set (x # a) \<and> re_match p t" by auto
      then show ?thesis by blast
    qed
  next
    assume "\<exists>a t. x # s = a @ t \<and> CHR 0x0A \<notin> set a \<and> re_match p t"
    then obtain a t where at: "x # s = a @ t" "CHR 0x0A \<notin> set a" "re_match p t" by blast
    show "re_match (DotStar # p) (x # s)"
    proof (cases a)
      case Nil
      with at have "re_match p (x # s)" by simp
      then show ?thesis by simp
    next
      case (Cons y a')
      with at have "x = y" "s = a' @ t" "x \<noteq> CHR 0x0A" "CHR 0x0A \<notin> set a'" by auto
      with at Cons.IH show ?thesis by auto
    qed
  qed
qed

lemma origin_pattern_matches:
  "re_match origin_pattern s \<longleftrightarrow>
     (\<exists>a b c. s = ''https://'' @ a @ ''unycompass'' @ b @ ''.vercel.app'' @ c
        \<and> CHR 0x0A \<notin> set a \<and> CHR 0x0A \<notin> set b)"
  unfolding origin_pattern_def
  apply (simp only: re_match_literals re_match_literals_end re_match_dotstar
      append_Cons append_Nil)
  apply blast
  done

lemma evil_matches: "re_match origin_pattern ''https://unycompass.vercel.app.evil.com''"
  by (simp add: origin_pattern_def)

lemma cors_examples:
  "map_of (headers (fst (serve collab now
       (mk_request GET Health_check (Some ''https://foo.unycompass.vercel.app'') JNull) g)))
     ''Access-Control-Allow-Origin'' = Some ''https://foo.unycompass.vercel.app''"
  "map_of (headers (fst (serve collab now
       (mk_request GET Health_check (Some ''http://localhost:3000'') JNull) g)))
     ''Access-Control-Allow-Origin'' = Some ''http://localhost:3000''"
  "headers (fst (serve collab now
       (mk_request GET Health_check (Some ''https://evil.example.com'') JNull) g)) = []"
  by (simp_all add: serve_def dispatch_request_def health_check_def jsonify_def apply_cors_def
      origin_pattern_def set_header_def cors_after_request_def static_origins_def
      lower_char_def)

subsection \<open>Stripping\<close>

lemma strip_decomposition:
  "\<exists>l r. m = l @ strip m @ r \<and> list_all is_space l \<and> list_all is_space r"
proof -
  define d where "d = dropWhile is_space m"
  define t where "t = dropWhile is_space (rev d)"
  define u where "u = takeWhile is_space (rev d)"
  have m: "m = takeWhile is_space m @ d"
    by (simp add: d_def)
  have s: "strip m = rev t"
    by (simp add: strip_def d_def t_def)
  have "rev d = u @ t"
    by (simp add: t_def u_def)
  then have "rev (rev d) = rev (u @ t)"
    by (rule arg_cong)
  then have d: "d = strip m @ rev u"
    by (simp add: s)
  have l: "list_all is_space (takeWhile is_space m)"
    by (auto simp: list_all_iff dest: set_takeWhileD)
  have r: "list_all is_space (rev u)"
    by (auto simp: u_def list_all_iff dest: set_takeWhileD)
  from m d have "m = takeWhile is_space m @ strip m @ rev u"
    by simp
  with l r show ?thesis by blast
qed

lemma strip_ends:
  assumes "strip m \<noteq> []"
  shows "\<not> is_space (hd (strip m))" and "\<not> is_space (last (strip m))"
proof -
  define d where "d = dropWhile is_space m"
  define t where "t = dropWhile is_space (rev d)"
  have s: "strip m = rev t" by (simp add: strip_def d_def t_def)
  with assms have t: "t \<noteq> []" by simp
  then have "\<not> is_space (hd t)" unfolding t_def by (rule hd_dropWhile)
  with t s show "\<not> is_space (last (strip m))" by (simp add: last_rev)
  have "rev d = takeWhile is_space (rev d) @ t" by (simp add: t_def)
  then have "rev (rev d) = rev (takeWhile is_space (rev d) @ t)" by simp
  then have dd: "d = rev t @ rev (takeWhile is_space (rev d))" by simp
  with t have "d \<noteq> []" by auto
  then have "\<not> is_space (hd d)" unfolding d_def by (rule hd_dropWhile)
  moreover from dd t have "hd d = hd (rev t)" by (metis hd_append2 rev_is_Nil_conv)
  ultimately show "\<not> is_space (hd (strip m))" by (simp add: s)
qed

lemma strip_spaces: "strip ''   '' = []"
  by (simp add: strip_def is_space_def)

lemma strip_hello: "strip ''  hello  '' = ''hello''" "strip ''hello'' = ''hello''"
  by (simp_all add: strip_def is_space_def)

subsection \<open>Decimal text\<close>

lemma of_char_digit: "d < 10 \<Longrightarrow> (of_char (digit_char d) :: nat) = 48 + d"
  by (simp add: digit_char_def)

lemma digits_value_str_nat: "digits_value (str_nat n) = n"
proof (induction n rule: str_nat.induct)
  case (1 n)
  show ?case
  proof (cases "n < 10")
    case True
    then show ?thesis by (simp add: digits_value_def str_nat.simps [of n] of_char_digit)
  next
    case False
    with 1 have "digits_value (str_nat (n div 10)) = n div 10" by simp
    with False show ?thesis
      by (simp add: digits_value_def str_nat.simps [of n] of_char_digit)
  qed
qed

lemma str_nat_7: "str_nat 7 = ''7''"
  by code_simp

section \<open>Claims\<close>

text \<open>
  C1, as the code has it. A POST to \<open>/chat\<close> or \<open>/api/chatbot/ask\<close> whose JSON object has
  no \<open>message\<close> key is answered with status 400 and an \<open>error\<close> key, and the bot is not
  called. When \<open>message\<close> is an empty or whitespace-only string the body has an \<open>error\<close>
  key and the bot is not called either (gateway state, bot state and call log are what
  they were); the status then is 500 when the bot is unavailable.
\<close>

theorem C1_missing_or_blank_message:
  assumes "rt = Chat \<or> rt = Chatbot_ask"
    and "map_of kvs ''message'' = None
         \<or> (\<exists>m. map_of kvs ''message'' = Some (JStr m) \<and> strip m = [])"
  shows "snd (serve collab now (mk_request POST rt og (JDict kvs)) g) = g
     \<and> body_field (fst (serve collab now (mk_request POST rt og (JDict kvs)) g)) ''error''
          \<noteq> None
     \<and> (map_of kvs ''message'' = None \<longrightarrow>
          status_code (fst (serve collab now (mk_request POST rt og (JDict kvs)) g)) = 400)
     \<and> (map_of kvs ''message'' \<noteq> None \<and> \<not> CHATBOT_READY g \<longrightarrow>
          status_code (fst (serve collab now (mk_request POST rt og (JDict kvs)) g)) = 500)"
  using assms
  by (auto simp: serve_chat serve_chatbot_ask chat_missing chatbot_ask_missing chat_present
      chatbot_ask_present ask_question_def ask_question_with_session_def ask_with_blank
      body_field_hooks status_hooks missing_message_def body_field_jsonify
      status_code_jsonify)

text \<open>At a whitespace-only message on \<open>/chat\<close> and at a body without \<open>message\<close> on
  \<open>/api/chatbot/ask\<close>.\<close>

theorem C1_missing_or_blank_message_witness:
  "snd (serve (fixed_bot ''hi'') ''t''
          (mk_request POST Chat None (JDict [(''message'', JStr ''   '')])) (startup (Inr 0)))
     = startup (Inr 0)
   \<and> body_field (fst (serve (fixed_bot ''hi'') ''t''
          (mk_request POST Chat None (JDict [(''message'', JStr ''   '')])) (startup (Inr 0))))
        ''error'' \<noteq> None
   \<and> status_code (fst (serve (fixed_bot ''hi'') ''t''
          (mk_request POST Chatbot_ask None (JDict [(''session_id'', JInt 42)]))
          (startup (Inr 0)))) = 400"
  using C1_missing_or_blank_message
          [of Chat "[(''message'', JStr ''   '')]" "fixed_bot ''hi''" "''t''" None
              "startup (Inr 0)"]
        C1_missing_or_blank_message
          [of Chatbot_ask "[(''session_id'', JInt 42)]" "fixed_bot ''hi''" "''t''" None
              "startup (Inr 0)"]
  by (simp add: strip_spaces)

text \<open>
  C1 as the spec words it asks for status 400 on a blank message. With the bot ready,
  \<open>/chat\<close> answers a whitespace-only message with 500; with the bot unavailable,
  \<open>/api/chatbot/ask\<close> does too.
\<close>

theorem C1_blank_message_counterexample:
  "status_code (fst (serve (fixed_bot ''hi'') ''t''
          (mk_request POST Chat None (JDict [(''message'', JStr ''   '')]))
          (startup (Inr 0)))) = 500
   \<and> status_code (fst (serve (fixed_bot ''hi'') ''t''
          (mk_request POST Chatbot_ask None (JDict [(''message'', JStr ''   '')]))
          (startup (Inl (PyException ''db down''))))) = 500"
  by (simp add: serve_chat serve_chatbot_ask chat_present chatbot_ask_present
      ask_question_def ask_question_with_session_def ask_with_blank strip_spaces
      status_hooks status_code_jsonify startup_def)

text \<open>
  C2, at an origin the policy does not trust. The pattern is matched from the start of the
  header and is not tied to its end, so \<open>https://unycompass.vercel.app.evil.com\<close>, a host
  under \<open>evil.com\<close> that is not in the static list and does not end in \<open>.vercel.app\<close>, is
  given \<open>Access-Control-Allow-Origin\<close> echoing it, with credentials allowed.
\<close>

theorem C2_untrusted_origin_granted:
  "map_of (headers (fst (serve (fixed_bot ''hi'') ''t''
       (mk_request GET Health_check (Some ''https://unycompass.vercel.app.evil.com'') JNull)
       (startup (Inr 0))))) ''Access-Control-Allow-Origin''
     = Some ''https://unycompass.vercel.app.evil.com''
   \<and> map_of (headers (fst (serve (fixed_bot ''hi'') ''t''
       (mk_request GET Health_check (Some ''https://unycompass.vercel.app.evil.com'') JNull)
       (startup (Inr 0))))) ''Access-Control-Allow-Credentials'' = Some ''true''
   \<and> ''https://unycompass.vercel.app.evil.com'' \<notin> set static_origins
   \<and> \<not> suffix ''.vercel.app'' ''https://unycompass.vercel.app.evil.com''"
  by (simp add: serve_def dispatch_request_def health_check_def jsonify_def apply_cors_def
      evil_matches set_header_def cors_after_request_def static_origins_def suffix_to_prefix)

text \<open>
  C3, as the code has it. After a failed construction, and whatever requests were served
  since: a POST to an ask route whose JSON object has a \<open>message\<close> key, of any value, gets
  500 and the error \<open>Chatbot not available:\<close> followed by the captured text; a reset gets 500
  and an \<open>error\<close> key; \<open>/status\<close> reports \<open>chatbot_ready\<close> false, status \<open>error\<close> and the
  captured text; \<open>/\<close> reports \<open>chatbot_ready\<close> false; \<open>/api/chatbot/status\<close> reports status
  \<open>error\<close>, \<open>pythonWorking\<close> false and the captured text in its message.
\<close>

theorem C3_unavailable_after_failed_startup:
  assumes "g = snd (serve_all collab rs (startup (Inl e)))"
  shows "((rt = Chat \<or> rt = Chatbot_ask) \<and> map_of kvs ''message'' = Some v \<longrightarrow>
            status_code (fst (serve collab now (mk_request POST rt og (JDict kvs)) g)) = 500
          \<and> body_field (fst (serve collab now (mk_request POST rt og (JDict kvs)) g)) ''error''
              = Some (JStr (''Chatbot not available: '' @ str_exc e)))
       \<and> status_code (fst (serve collab now
            (mk_request POST (Reset_session_memory sid) og d) g)) = 500
       \<and> body_field (fst (serve collab now
            (mk_request POST (Reset_session_memory sid) og d) g)) ''error'' \<noteq> None
       \<and> body_field (fst (serve collab now (mk_request GET Status og d) g)) ''chatbot_ready''
            = Some (JBool False)
       \<and> body_field (fst (serve collab now (mk_request GET Status og d) g)) ''status''
            = Some (JStr ''error'')
       \<and> body_field (fst (serve collab now (mk_request GET Status og d) g)) ''error''
            = Some (JStr (str_exc e))
       \<and> body_field (fst (serve collab now (mk_request GET Health_check og d) g))
            ''chatbot_ready'' = Some (JBool False)
       \<and> body_field (fst (serve collab now (mk_request GET Chatbot_status og d) g)) ''status''
            = Some (JStr ''error'')
       \<and> body_field (fst (serve collab now (mk_request GET Chatbot_status og d) g))
            ''pythonWorking'' = Some (JBool False)
       \<and> body_field (fst (serve collab now (mk_request GET Chatbot_status og d) g)) ''message''
            = Some (JStr (''Chatbot error: '' @ str_exc e))"
proof -
  note nr = failed_startup_flags(1) [OF assms]
  note er = failed_startup_flags(2) [OF assms]
  have ask: "(rt = Chat \<or> rt = Chatbot_ask) \<and> map_of kvs ''message'' = Some v \<longrightarrow>
            status_code (fst (serve collab now (mk_request POST rt og (JDict kvs)) g)) = 500
          \<and> body_field (fst (serve collab now (mk_request POST rt og (JDict kvs)) g)) ''error''
              = Some (JStr (''Chatbot not available: '' @ str_exc e))"
    using nr er
    by (auto simp: serve_chat serve_chatbot_ask chat_unavailable chatbot_ask_unavailable
        status_hooks body_field_hooks status_code_jsonify body_field_jsonify)
  have reset: "status_code (fst (serve collab now
            (mk_request POST (Reset_session_memory sid) og d) g)) = 500
       \<and> body_field (fst (serve collab now
            (mk_request POST (Reset_session_memory sid) og d) g)) ''error'' \<noteq> None"
    using nr
    by (simp add: serve_reset reset_unavailable status_hooks body_field_hooks
        status_code_jsonify body_field_jsonify)
  have st: "body_field (fst (serve collab now (mk_request GET Status og d) g)) ''chatbot_ready''
            = Some (JBool False)
       \<and> body_field (fst (serve collab now (mk_request GET Status og d) g)) ''status''
            = Some (JStr ''error'')
       \<and> body_field (fst (serve collab now (mk_request GET Status og d) g)) ''error''
            = Some (JStr (str_exc e))"
    using nr er
    by (simp add: serve_get_views body_field_hooks status_def body_field_jsonify)
  have hc: "body_field (fst (serve collab now (mk_request GET Health_check og d) g))
            ''chatbot_ready'' = Some (JBool False)"
    using nr
    by (simp add: serve_get_views body_field_hooks health_check_def body_field_jsonify)
  have cs: "body_field (fst (serve collab now (mk_request GET Chatbot_status og d) g)) ''status''
            = Some (JStr ''error'')
       \<and> body_field (fst (serve collab now (mk_request GET Chatbot_status og d) g))
            ''pythonWorking'' = Some (JBool False)
       \<and> body_field (fst (serve collab now (mk_request GET Chatbot_status og d) g)) ''message''
            = Some (JStr (''Chatbot error: '' @ str_exc e))"
    using nr er
    by (simp add: serve_get_views body_field_hooks chatbot_status_def body_field_jsonify)
  from ask reset st hc cs show ?thesis by blast
qed

text \<open>After a failed startup and one health check, at \<open>/chat\<close> and \<open>/status\<close>.\<close>

theorem C3_unavailable_after_failed_startup_witness:
  "status_code (fst (serve (fixed_bot ''hi'') ''t''
       (mk_request POST Chat None (JDict [(''message'', JStr ''hello'')]))
       (snd (serve_all (fixed_bot ''hi'') [(''t0'', mk_request GET Health_check None JNull)]
              (startup (Inl (PyException ''db down''))))))) = 500
   \<and> body_field (fst (serve (fixed_bot ''hi'') ''t''
       (mk_request POST Chat None (JDict [(''message'', JStr ''hello'')]))
       (snd (serve_all (fixed_bot ''hi'') [(''t0'', mk_request GET Health_check None JNull)]
              (startup (Inl (PyException ''db down''))))))) ''error''
     = Some (JStr ''Chatbot not available: db down'')
   \<and> body_field (fst (serve (fixed_bot ''hi'') ''t'' (mk_request GET Status None JNull)
       (snd (serve_all (fixed_bot ''hi'') [(''t0'', mk_request GET Health_check None JNull)]
              (startup (Inl (PyException ''db down''))))))) ''error''
     = Some (JStr ''db down'')"
  using C3_unavailable_after_failed_startup
    [where g = "snd (serve_all (fixed_bot ''hi'')
                  [(''t0'', mk_request GET Health_check None JNull)]
                  (startup (Inl (PyException ''db down''))))"
       and collab = "fixed_bot ''hi''" and e = "PyException ''db down''"
       and rs = "[(''t0'', mk_request GET Health_check None JNull)]"
       and rt = Chat and kvs = "[(''message'', JStr ''hello'')]" and v = "JStr ''hello''"
       and now = "''t''" and og = None and d = JNull]
  by simp

text \<open>
  C3 as the spec words it fails in four places after a failed startup: an ask request
  without \<open>message\<close> still gets 400, \<open>/\<close> still reports status \<open>healthy\<close>, the error of
  the reset route does not carry the captured text, and \<open>/api/chatbot/status\<close> has no
  \<open>chatbot_ready\<close> key.
\<close>

theorem C3_regardless_of_validity_counterexample:
  "status_code (fst (serve (fixed_bot ''hi'') ''t''
       (mk_request POST Chat None (JDict [(''question'', JStr ''hello'')]))
       (startup (Inl (PyException ''db down''))))) = 400
   \<and> body_field (fst (serve (fixed_bot ''hi'') ''t'' (mk_request GET Health_check None JNull)
       (startup (Inl (PyException ''db down''))))) ''status'' = Some (JStr ''healthy'')
   \<and> body (fst (serve (fixed_bot ''hi'') ''t''
       (mk_request POST (Reset_session_memory 7) None JNull)
       (startup (Inl (PyException ''db down'')))))
     = Json (JDict [(''error'', JStr ''Chatbot not available'')])
   \<and> body_field (fst (serve (fixed_bot ''hi'') ''t''
       (mk_request GET Chatbot_status None JNull)
       (startup (Inl (PyException ''db down''))))) ''chatbot_ready'' = None"
  by (simp add: serve_chat chat_missing serve_get_views serve_reset reset_unavailable
      startup_def status_hooks body_hooks body_field_hooks missing_message_def
      status_code_jsonify body_field_jsonify body_jsonify health_check_def
      chatbot_status_def)



text \<open>
  C5. A POST to \<open>/chat\<close> with a non-blank message, the bot ready and answering with a
  string: status 200, \<open>response\<close> is that string, \<open>question\<close> is the message as sent, and
  \<open>timestamp\<close> is the clock reading.
\<close>

theorem C5_chat_success:
  assumes "CHATBOT_READY g" and "bot g = Some b"
    and "map_of kvs ''message'' = Some (JStr m)" and "strip m \<noteq> []"
    and "collab (AnswerQuestion (strip m)) b = (Inr (JStr a), b')"
    and "serve collab now (mk_request POST Chat og (JDict kvs)) g = (resp, g')"
  shows "status_code resp = 200
       \<and> body_field resp ''response'' = Some (JStr a)
       \<and> body_field resp ''question'' = Some (JStr m)
       \<and> body_field resp ''timestamp'' = Some (JStr now)"
proof -
  have h: "chat collab now (JDict kvs) g =
     (Inr (jsonify [(''question'', JStr m), (''response'', JStr a),
                    (''timestamp'', JStr now)] 200),
      g\<lparr>bot := Some b', calls := calls g @ [AnswerQuestion (strip m)]\<rparr>)"
    using assms(1) assms(4) assms(2) assms(3) assms(5) by (rule chat_answers [where collab = collab and b = b])
  show ?thesis
    using serve_result_chat [OF assms(6) h, of "''response''"]
      serve_result_chat [OF assms(6) h, of "''question''"]
      serve_result_chat [OF assms(6) h, of "''timestamp''"]
    by (simp add: status_code_jsonify body_field_jsonify)
qed

text \<open>With a bot that gives a fixed answer.\<close>

theorem C5_chat_success_witness:
  "status_code (fst (serve (fixed_bot ''Hunter College is in New York'') ''2026-01-01''
       (mk_request POST Chat None (JDict [(''message'', JStr ''hello'')])) (startup (Inr 0))))
     = 200
   \<and> body_field (fst (serve (fixed_bot ''Hunter College is in New York'') ''2026-01-01''
       (mk_request POST Chat None (JDict [(''message'', JStr ''hello'')])) (startup (Inr 0))))
       ''response'' = Some (JStr ''Hunter College is in New York'')
   \<and> body_field (fst (serve (fixed_bot ''Hunter College is in New York'') ''2026-01-01''
       (mk_request POST Chat None (JDict [(''message'', JStr ''hello'')])) (startup (Inr 0))))
       ''question'' = Some (JStr ''hello'')
   \<and> body_field (fst (serve (fixed_bot ''Hunter College is in New York'') ''2026-01-01''
       (mk_request POST Chat None (JDict [(''message'', JStr ''hello'')])) (startup (Inr 0))))
       ''timestamp'' = Some (JStr ''2026-01-01'')"
  using C5_chat_success
    [where g = "startup (Inr 0)" and b = 0
       and collab = "fixed_bot ''Hunter College is in New York''"
       and kvs = "[(''message'', JStr ''hello'')]" and m = "''hello''"
       and a = "''Hunter College is in New York''" and b' = 1 and now = "''2026-01-01''"
       and og = None
       and resp = "fst (serve (fixed_bot ''Hunter College is in New York'') ''2026-01-01''
          (mk_request POST Chat None (JDict [(''message'', JStr ''hello'')])) (startup (Inr 0)))"
       and g' = "snd (serve (fixed_bot ''Hunter College is in New York'') ''2026-01-01''
          (mk_request POST Chat None (JDict [(''message'', JStr ''hello'')])) (startup (Inr 0)))"]
  by (simp add: startup_def fixed_bot_def strip_hello)

text \<open>
  C6. A successful POST to \<open>/api/chatbot/ask\<close> that carries a \<open>session_id\<close>: the bot is
  called through the session-aware variant with that identifier, and the 200 response
  carries the same \<open>session_id\<close>.
\<close>

theorem C6_session_id_passed_and_echoed:
  assumes "CHATBOT_READY g" and "bot g = Some b"
    and "map_of kvs ''message'' = Some (JStr m)" and "strip m \<noteq> []"
    and "map_of kvs ''session_id'' = Some sid"
    and "collab (AnswerQuestionSession (strip m) sid) b = (Inr a, b')"
    and "serve collab now (mk_request POST Chatbot_ask og (JDict kvs)) g = (resp, g')"
  shows "status_code resp = 200
       \<and> body_field resp ''session_id'' = Some sid
       \<and> calls g' = calls g @ [AnswerQuestionSession (strip m) sid]"
proof -
  from assms(5) have sid: "sid = (case map_of kvs ''session_id'' of Some s \<Rightarrow> s | None \<Rightarrow> JNull)"
    by simp
  have h: "chatbot_ask collab now POST (JDict kvs) g =
     (Inr (jsonify [(''question'', JStr m), (''response'', a), (''timestamp'', JStr now),
                    (''session_id'', sid)] 200),
      g\<lparr>bot := Some b', calls := calls g @ [AnswerQuestionSession (strip m) sid]\<rparr>)"
    using assms(1) assms(4) assms(2) assms(3) sid assms(6)
    by (rule chatbot_ask_answers [where collab = collab and b = b])
  show ?thesis
    using serve_result_chatbot_ask [OF assms(7) h, of "''session_id''"]
    by (simp add: status_code_jsonify body_field_jsonify)
qed

text \<open>Session 42, message \<open>hello\<close>.\<close>

theorem C6_session_id_passed_and_echoed_witness:
  "status_code (fst (serve (fixed_bot ''hi'') ''t''
       (mk_request POST Chatbot_ask None
          (JDict [(''message'', JStr ''hello''), (''session_id'', JInt 42)]))
       (startup (Inr 0)))) = 200
   \<and> body_field (fst (serve (fixed_bot ''hi'') ''t''
       (mk_request POST Chatbot_ask None
          (JDict [(''message'', JStr ''hello''), (''session_id'', JInt 42)]))
       (startup (Inr 0)))) ''session_id'' = Some (JInt 42)
   \<and> calls (snd (serve (fixed_bot ''hi'') ''t''
       (mk_request POST Chatbot_ask None
          (JDict [(''message'', JStr ''hello''), (''session_id'', JInt 42)]))
       (startup (Inr 0)))) = [AnswerQuestionSession ''hello'' (JInt 42)]"
  using C6_session_id_passed_and_echoed
    [where g = "startup (Inr 0)" and b = 0 and collab = "fixed_bot ''hi''"
       and kvs = "[(''message'', JStr ''hello''), (''session_id'', JInt 42)]"
       and m = "''hello''" and sid = "JInt 42" and a = "JStr ''hi''" and b' = 1
       and now = "''t''" and og = None
       and resp = "fst (serve (fixed_bot ''hi'') ''t''
          (mk_request POST Chatbot_ask None
             (JDict [(''message'', JStr ''hello''), (''session_id'', JInt 42)]))
          (startup (Inr 0)))"
       and g' = "snd (serve (fixed_bot ''hi'') ''t''
          (mk_request POST Chatbot_ask None
             (JDict [(''message'', JStr ''hello''), (''session_id'', JInt 42)]))
          (startup (Inr 0)))"]
  by (simp add: startup_def fixed_bot_def strip_hello)

text \<open>
  C7. A POST to the reset route with the bot ready: when \<open>clear_session_memory\<close> raises,
  status 500 and an \<open>error\<close> key; when it returns, status 200 and a \<open>message\<close> that
  contains the decimal session identifier.
\<close>

theorem C7_reset:
  assumes "CHATBOT_READY g" and "bot g = Some b"
    and "serve collab now (mk_request POST (Reset_session_memory sid) og d) g = (resp, g')"
  shows "(isl (fst (collab (ClearSessionMemory sid) b)) \<longrightarrow>
            status_code resp = 500 \<and> body_field resp ''error'' \<noteq> None)
       \<and> (\<not> isl (fst (collab (ClearSessionMemory sid) b)) \<longrightarrow>
            status_code resp = 200
            \<and> (\<exists>msg. body_field resp ''message'' = Some (JStr msg) \<and> sublist (str_nat sid) msg))"
proof (cases "collab (ClearSessionMemory sid) b")
  case (Pair r b')
  show ?thesis
  proof (cases r)
    case (Inl e)
    with Pair have c: "collab (ClearSessionMemory sid) b = (Inl e, b')" by simp
    have h: "reset_session_memory collab sid g =
       (jsonify [(''error'', JStr (''Failed to reset session memory: '' @ str_exc e))] 500,
        g\<lparr>bot := Some b', calls := calls g @ [ClearSessionMemory sid]\<rparr>)"
      using assms(1) assms(2) c by (rule reset_raises [where collab = collab and b = b])
    show ?thesis
      using serve_result_reset [OF assms(3) h, of "''error''"] c
      by (simp add: status_code_jsonify body_field_jsonify)
  next
    case (Inr v)
    with Pair have c: "collab (ClearSessionMemory sid) b = (Inr v, b')" by simp
    have h: "reset_session_memory collab sid g =
       (jsonify [(''message'', JStr (''Memory reset for session '' @ str_nat sid))] 200,
        g\<lparr>bot := Some b', calls := calls g @ [ClearSessionMemory sid]\<rparr>)"
      using assms(1) assms(2) c by (rule reset_succeeds [where collab = collab and b = b])
    have st: "status_code resp = 200"
      using serve_result_reset [OF assms(3) h, of "''message''"]
      by (simp add: status_code_jsonify)
    have msg: "body_field resp ''message''
                 = Some (JStr (''Memory reset for session '' @ str_nat sid))"
      using serve_result_reset [OF assms(3) h, of "''message''"]
      by (simp add: body_field_jsonify)
    have "sublist (str_nat sid) (''Memory reset for session '' @ str_nat sid)"
      by (rule sublist_append_leftI)
    with msg have "\<exists>msg. body_field resp ''message'' = Some (JStr msg) \<and> sublist (str_nat sid) msg"
      by blast
    with st c show ?thesis by simp
  qed
qed

text \<open>Session 7, with a raising bot and with one that succeeds.\<close>

theorem C7_reset_witness:
  "status_code (fst (serve (raising_bot ''boom'') ''t''
       (mk_request POST (Reset_session_memory 7) None JNull) (startup (Inr 0)))) = 500
   \<and> body_field (fst (serve (raising_bot ''boom'') ''t''
       (mk_request POST (Reset_session_memory 7) None JNull) (startup (Inr 0)))) ''error''
       \<noteq> None
   \<and> status_code (fst (serve (fixed_bot ''hi'') ''t''
       (mk_request POST (Reset_session_memory 7) None JNull) (startup (Inr 0)))) = 200
   \<and> (\<exists>msg. body_field (fst (serve (fixed_bot ''hi'') ''t''
          (mk_request POST (Reset_session_memory 7) None JNull) (startup (Inr 0))))
          ''message'' = Some (JStr msg) \<and> sublist ''7'' msg)"
  using C7_reset
    [where g = "startup (Inr 0)" and b = 0 and collab = "raising_bot ''boom''" and sid = 7
       and now = "''t''" and og = None and d = JNull
       and resp = "fst (serve (raising_bot ''boom'') ''t''
          (mk_request POST (Reset_session_memory 7) None JNull) (startup (Inr 0)))"
       and g' = "snd (serve (raising_bot ''boom'') ''t''
          (mk_request POST (Reset_session_memory 7) None JNull) (startup (Inr 0)))"]
    C7_reset
    [where g = "startup (Inr 0)" and b = 0 and collab = "fixed_bot ''hi''" and sid = 7
       and now = "''t''" and og = None and d = JNull
       and resp = "fst (serve (fixed_bot ''hi'') ''t''
          (mk_request POST (Reset_session_memory 7) None JNull) (startup (Inr 0)))"
       and g' = "snd (serve (fixed_bot ''hi'') ''t''
          (mk_request POST (Reset_session_memory 7) None JNull) (startup (Inr 0)))"]
  by (simp add: startup_def fixed_bot_def raising_bot_def str_nat_7)

text \<open>
  C8. An OPTIONS request to \<open>/api/chatbot/status\<close>, \<open>/api/chatbot/ask\<close> or the reset
  route gets status 200 and an empty body, and leaves the gateway, the bot and the call log
  as they were, whatever the readiness flag. The first two answer in their views; the reset
  rule does not list OPTIONS, so Flask answers for it.
\<close>

theorem C8_options:
  assumes "rt = Chatbot_status \<or> rt = Chatbot_ask \<or> rt = Reset_session_memory sid"
    and "serve collab now (mk_request OPTIONS rt og d) g = (resp, g')"
  shows "status_code resp = 200 \<and> body resp = Text [] \<and> g' = g"
  using assms
  by (auto simp: serve_def dispatch_request_def chatbot_status_def chatbot_ask_def
      text_response_def status_hooks body_hooks)

text \<open>The reset route after a failed startup, and the ask route with the bot ready.\<close>

theorem C8_options_witness:
  "status_code (fst (serve (fixed_bot ''hi'') ''t''
       (mk_request OPTIONS (Reset_session_memory 7) None JNull)
       (startup (Inl (PyException ''db down''))))) = 200
   \<and> body (fst (serve (fixed_bot ''hi'') ''t''
       (mk_request OPTIONS (Reset_session_memory 7) None JNull)
       (startup (Inl (PyException ''db down''))))) = Text []
   \<and> snd (serve (fixed_bot ''hi'') ''t''
       (mk_request OPTIONS Chatbot_ask None (JDict [(''message'', JStr ''hello'')]))
       (startup (Inr 0))) = startup (Inr 0)"
  using C8_options
    [where rt = "Reset_session_memory 7" and sid = 7 and collab = "fixed_bot ''hi''"
       and now = "''t''" and og = None and d = JNull
       and g = "startup (Inl (PyException ''db down''))"
       and resp = "fst (serve (fixed_bot ''hi'') ''t''
          (mk_request OPTIONS (Reset_session_memory 7) None JNull)
          (startup (Inl (PyException ''db down''))))"
       and g' = "snd (serve (fixed_bot ''hi'') ''t''
          (mk_request OPTIONS (Reset_session_memory 7) None JNull)
          (startup (Inl (PyException ''db down''))))"]
    C8_options
    [where rt = Chatbot_ask and collab = "fixed_bot ''hi''"
       and now = "''t''" and og = None and d = "JDict [(''message'', JStr ''hello'')]"
       and g = "startup (Inr 0)"
       and resp = "fst (serve (fixed_bot ''hi'') ''t''
          (mk_request OPTIONS Chatbot_ask None (JDict [(''message'', JStr ''hello'')]))
          (startup (Inr 0)))"
       and g' = "snd (serve (fixed_bot ''hi'') ''t''
          (mk_request OPTIONS Chatbot_ask None (JDict [(''message'', JStr ''hello'')]))
          (startup (Inr 0)))"]
  by simp

text \<open>
  C9. Over any sequence of requests the pair \<open>CHATBOT_READY\<close>, \<open>CHATBOT_ERROR\<close> stays what
  it was, so after startup it is what startup wrote; and a request to \<open>/\<close>, \<open>/status\<close> or
  \<open>/api/chatbot/status\<close> leaves the whole gateway state unchanged.
\<close>

theorem C9_flags_read_only:
  "CHATBOT_READY (snd (serve_all collab rs g)) = CHATBOT_READY g
   \<and> CHATBOT_ERROR (snd (serve_all collab rs g)) = CHATBOT_ERROR g
   \<and> CHATBOT_READY (snd (serve_all collab rs (startup c))) = (\<not> isl c)
   \<and> CHATBOT_ERROR (snd (serve_all collab rs (startup c)))
        = (case c of Inl e \<Rightarrow> Some (str_exc e) | Inr b \<Rightarrow> None)
   \<and> snd (serve collab now (mk_request m Health_check og d) g) = g
   \<and> snd (serve collab now (mk_request m Status og d) g) = g
   \<and> snd (serve collab now (mk_request m Chatbot_status og d) g) = g"
  by (simp add: serve_all_flags serve_health_routes startup_def split: sum.split)

text \<open>
  C10. On both ask routes, for a non-blank message and a ready bot that answers: the bot
  receives the stripped message and the \<open>question\<close> of the 200 response is the message as
  sent. The stripped message has no whitespace at either end and differs from the message
  by whitespace only.
\<close>

theorem C10_stripped_to_bot_original_echoed:
  assumes "CHATBOT_READY g" and "bot g = Some b"
    and "map_of kvs ''message'' = Some (JStr m)" and "strip m \<noteq> []"
  shows "(collab (AnswerQuestion (strip m)) b = (Inr a, b')
          \<and> serve collab now (mk_request POST Chat og (JDict kvs)) g = (resp, g') \<longrightarrow>
            calls g' = calls g @ [AnswerQuestion (strip m)]
          \<and> status_code resp = 200 \<and> body_field resp ''question'' = Some (JStr m))
       \<and> (sid = (case map_of kvs ''session_id'' of Some s \<Rightarrow> s | None \<Rightarrow> JNull)
          \<and> collab (AnswerQuestionSession (strip m) sid) b = (Inr a, b')
          \<and> serve collab now (mk_request POST Chatbot_ask og (JDict kvs)) g = (resp, g') \<longrightarrow>
            calls g' = calls g @ [AnswerQuestionSession (strip m) sid]
          \<and> status_code resp = 200 \<and> body_field resp ''question'' = Some (JStr m))
       \<and> \<not> is_space (hd (strip m)) \<and> \<not> is_space (last (strip m))
       \<and> (\<exists>l r. m = l @ strip m @ r \<and> list_all is_space l \<and> list_all is_space r)"
proof (intro conjI impI)
  assume h: "collab (AnswerQuestion (strip m)) b = (Inr a, b')
          \<and> serve collab now (mk_request POST Chat og (JDict kvs)) g = (resp, g')"
  have c: "chat collab now (JDict kvs) g =
     (Inr (jsonify [(''question'', JStr m), (''response'', a), (''timestamp'', JStr now)] 200),
      g\<lparr>bot := Some b', calls := calls g @ [AnswerQuestion (strip m)]\<rparr>)"
    by (rule chat_answers [where collab = collab and b = b]) (use assms h in auto)
  from h have s: "serve collab now (mk_request POST Chat og (JDict kvs)) g = (resp, g')"
    by simp
  show "calls g' = calls g @ [AnswerQuestion (strip m)]"
    using serve_result_chat [OF s c, of "''question''"] by simp
  show "status_code resp = 200"
    using serve_result_chat [OF s c, of "''question''"] by (simp add: status_code_jsonify)
  show "body_field resp ''question'' = Some (JStr m)"
    using serve_result_chat [OF s c, of "''question''"] by (simp add: body_field_jsonify)
next
  assume h: "sid = (case map_of kvs ''session_id'' of Some s \<Rightarrow> s | None \<Rightarrow> JNull)
          \<and> collab (AnswerQuestionSession (strip m) sid) b = (Inr a, b')
          \<and> serve collab now (mk_request POST Chatbot_ask og (JDict kvs)) g = (resp, g')"
  have c: "chatbot_ask collab now POST (JDict kvs) g =
     (Inr (jsonify [(''question'', JStr m), (''response'', a), (''timestamp'', JStr now),
                    (''session_id'', sid)] 200),
      g\<lparr>bot := Some b', calls := calls g @ [AnswerQuestionSession (strip m) sid]\<rparr>)"
    by (rule chatbot_ask_answers [where collab = collab and b = b]) (use assms h in auto)
  from h have s: "serve collab now (mk_request POST Chatbot_ask og (JDict kvs)) g = (resp, g')"
    by simp
  show "calls g' = calls g @ [AnswerQuestionSession (strip m) sid]"
    using serve_result_chatbot_ask [OF s c, of "''question''"] by simp
  show "status_code resp = 200"
    using serve_result_chatbot_ask [OF s c, of "''question''"]
    by (simp add: status_code_jsonify)
  show "body_field resp ''question'' = Some (JStr m)"
    using serve_result_chatbot_ask [OF s c, of "''question''"]
    by (simp add: body_field_jsonify)
next
  show "\<not> is_space (hd (strip m))" using assms(4) by (rule strip_ends(1))
  show "\<not> is_space (last (strip m))" using assms(4) by (rule strip_ends(2))
  show "\<exists>l r. m = l @ strip m @ r \<and> list_all is_space l \<and> list_all is_space r"
    by (rule strip_decomposition)
qed

text \<open>With two spaces on each side of \<open>hello\<close>.\<close>

theorem C10_stripped_to_bot_original_echoed_witness:
  "calls (snd (serve (fixed_bot ''hi'') ''t''
       (mk_request POST Chat None (JDict [(''message'', JStr ''  hello  '')]))
       (startup (Inr 0)))) = [AnswerQuestion ''hello'']
   \<and> body_field (fst (serve (fixed_bot ''hi'') ''t''
       (mk_request POST Chat None (JDict [(''message'', JStr ''  hello  '')]))
       (startup (Inr 0)))) ''question'' = Some (JStr ''  hello  '')
   \<and> calls (snd (serve (fixed_bot ''hi'') ''t''
       (mk_request POST Chatbot_ask None (JDict [(''message'', JStr ''  hello  '')]))
       (startup (Inr 0)))) = [AnswerQuestionSession ''hello'' JNull]
   \<and> body_field (fst (serve (fixed_bot ''hi'') ''t''
       (mk_request POST Chatbot_ask None (JDict [(''message'', JStr ''  hello  '')]))
       (startup (Inr 0)))) ''question'' = Some (JStr ''  hello  '')"
  using C10_stripped_to_bot_original_echoed
    [where g = "startup (Inr 0)" and b = 0 and collab = "fixed_bot ''hi''"
       and kvs = "[(''message'', JStr ''  hello  '')]" and m = "''  hello  ''"
       and a = "JStr ''hi''" and b' = 1 and now = "''t''" and og = None and sid = JNull
       and resp = "fst (serve (fixed_bot ''hi'') ''t''
          (mk_request POST Chat None (JDict [(''message'', JStr ''  hello  '')]))
          (startup (Inr 0)))"
       and g' = "snd (serve (fixed_bot ''hi'') ''t''
          (mk_request POST Chat None (JDict [(''message'', JStr ''  hello  '')]))
          (startup (Inr 0)))"]
    C10_stripped_to_bot_original_echoed
    [where g = "startup (Inr 0)" and b = 0 and collab = "fixed_bot ''hi''"
       and kvs = "[(''message'', JStr ''  hello  '')]" and m = "''  hello  ''"
       and a = "JStr ''hi''" and b' = 1 and now = "''t''" and og = None and sid = JNull
       and resp = "fst (serve (fixed_bot ''hi'') ''t''
          (mk_request POST Chatbot_ask None (JDict [(''message'', JStr ''  hello  '')]))
          (startup (Inr 0)))"
       and g' = "snd (serve (fixed_bot ''hi'') ''t''
          (mk_request POST Chatbot_ask None (JDict [(''message'', JStr ''  hello  '')]))
          (startup (Inr 0)))"]
  by (simp add: startup_def fixed_bot_def strip_hello)

end
